theory Spec2Isabelle
  imports Main "HOL-Library.Sublist"
begin

section \<open>Strings and the regular expressions of the bot\<close>

text \<open>
  A Python \<^verbatim>\<open>str\<close> is embedded as a \<^typ>\<open>string\<close>: a list of code points below 256.
  The module \<^verbatim>\<open>re\<close> is embedded as far as \<^verbatim>\<open>archive_bot.py\<close> uses it: a pattern is a
  sequence of literals and greedy stars over a character class, and a matcher is the
  anchored match of such a pattern at the head of its input. It returns the length of the
  match that a backtracking engine finds first (a greedy star tries its longest run first
  and gives characters back one at a time), or \<open>None\<close>.
\<close>

type_synonym matcher = "string \<Rightarrow> nat option"

definition newline :: char where
  "newline = CHR 0x0A"

definition not_newline :: "char \<Rightarrow> bool" where
  \<comment> \<open>the class of \<^verbatim>\<open>.\<close> (no DOTALL flag)\<close>
  "not_newline c = (c \<noteq> newline)"

definition is_space :: "char \<Rightarrow> bool" where
  \<comment> \<open>the class of \<^verbatim>\<open>\s\<close> on a str pattern: the code points below 256 for which
      \<^verbatim>\<open>str.isspace\<close> holds\<close>
  "is_space c = (c \<in> set [CHR 0x09, CHR 0x0A, CHR 0x0B, CHR 0x0C, CHR 0x0D,
                             CHR 0x1C, CHR 0x1D, CHR 0x1E, CHR 0x1F, CHR 0x20,
                             CHR 0x85, CHR 0xA0])"

definition m_end :: matcher where
  \<comment> \<open>the end of a pattern\<close>
  "m_end s = Some 0"

definition m_lit :: "string \<Rightarrow> matcher \<Rightarrow> matcher" where
  \<comment> \<open>a literal, then the rest of the pattern\<close>
  "m_lit l k s =
     (if prefix l s then map_option (\<lambda>n. length l + n) (k (drop (length l) s)) else None)"

fun m_try :: "matcher \<Rightarrow> string \<Rightarrow> nat \<Rightarrow> nat option" where
  \<comment> \<open>the star has taken \<open>n\<close> characters: try the rest of the pattern, else give one back\<close>
  "m_try k s 0 = k s"
| "m_try k s (Suc n) =
     (case k (drop (Suc n) s) of
        Some m \<Rightarrow> Some (Suc n + m)
      | None \<Rightarrow> m_try k s n)"

definition m_star :: "(char \<Rightarrow> bool) \<Rightarrow> matcher \<Rightarrow> matcher" where
  \<comment> \<open>a greedy star over a character class, then the rest of the pattern\<close>
  "m_star cls k s = m_try k s (length (takeWhile cls s))"

text \<open>
  \<^verbatim>\<open>re.findall\<close>, \<^verbatim>\<open>re.search\<close> (its truth value) and \<^verbatim>\<open>re.sub\<close> scan the input from the
  left; after a match the scan goes on behind it. Every pattern of the bot starts with two
  literal braces, so no match is empty; the scans below treat an empty match as no match.
\<close>

fun re_findall :: "matcher \<Rightarrow> string \<Rightarrow> string list" where
  "re_findall m [] = []"
| "re_findall m (c # cs) =
     (case m (c # cs) of
        Some (Suc n) \<Rightarrow> (c # take n cs) # re_findall m (drop n cs)
      | _ \<Rightarrow> re_findall m cs)"

fun re_search :: "matcher \<Rightarrow> string \<Rightarrow> bool" where
  "re_search m [] = (m [] \<noteq> None)"
| "re_search m (c # cs) = (m (c # cs) \<noteq> None \<or> re_search m cs)"

fun re_sub :: "matcher \<Rightarrow> string \<Rightarrow> string \<Rightarrow> string" where
  "re_sub m repl [] = []"
| "re_sub m repl (c # cs) =
     (case m (c # cs) of
        Some (Suc n) \<Rightarrow> repl @ re_sub m repl (drop n cs)
      | _ \<Rightarrow> c # re_sub m repl cs)"

definition template_re :: matcher where
  \<comment> \<open>\<^verbatim>\<open>r"\{{2}.*\}{2}"\<close>\<close>
  "template_re = m_lit ''{{'' (m_star not_newline (m_lit ''}}'' m_end))"

definition name_re :: "string \<Rightarrow> matcher" where
  \<comment> \<open>\<^verbatim>\<open>r"\{{2}\s*" + template_name + "\s*\|"\<close>, for a name that is literal as a pattern\<close>
  "name_re template_name =
     m_lit ''{{'' (m_star is_space (m_lit template_name (m_star is_space (m_lit ''|'' m_end))))"

definition close_re :: matcher where
  \<comment> \<open>\<^verbatim>\<open>"\}{2}"\<close>\<close>
  "close_re = m_lit ''}}'' m_end"



section \<open>Marker extraction\<close>

definition grab_template_info :: "string \<Rightarrow> string \<Rightarrow> string" where
  "grab_template_info template_name template =
     (let front_prune = re_sub (name_re template_name) [] template
      in re_sub close_re [] front_prune)"

definition grab_template_data :: "string \<Rightarrow> string \<Rightarrow> string list" where
  "grab_template_data template_name txt =
     (let templates = re_findall template_re txt
      in map (grab_template_info template_name)
           (filter (re_search (name_re template_name)) templates))"

definition parse_template :: "string \<Rightarrow> string \<Rightarrow> string list" where
  "parse_template template_name txt =
     (let templates = re_findall template_re txt
      in filter (re_search (name_re template_name)) templates)"















section \<open>Eligibility\<close>

text \<open>
  A \<^verbatim>\<open>datetime\<close>: naive when \<open>utcoffset\<close> is \<open>None\<close>, else aware of its offset from UTC in
  seconds. Python compares two naive ones field by field, which is the order of their
  distance in microseconds from the start of year 1 (\<open>micros\<close>, after
  \<^verbatim>\<open>datetime.toordinal\<close>), and two aware ones after taking their offsets off; comparing a
  naive one with an aware one raises \<^verbatim>\<open>TypeError\<close>. Subtracting a \<^verbatim>\<open>timedelta\<close> subtracts
  its microseconds and raises \<^verbatim>\<open>OverflowError\<close> below the first day of year 1.
\<close>

record datetime =
  year :: nat
  month :: nat
  day :: nat
  hour :: nat
  minute :: nat
  second :: nat
  microsecond :: nat
  utcoffset :: "int option"

definition is_leap :: "nat \<Rightarrow> bool" where
  "is_leap y = (y mod 4 = 0 \<and> (y mod 100 \<noteq> 0 \<or> y mod 400 = 0))"

definition days_before_year :: "nat \<Rightarrow> nat" where
  "days_before_year y = (let p = y - 1 in p * 365 + p div 4 - p div 100 + p div 400)"

definition days_in_month :: "nat \<Rightarrow> nat \<Rightarrow> nat" where
  "days_in_month y m =
     (if m = 2 then (if is_leap y then 29 else 28)
      else if m \<in> set [4, 6, 9, 11] then 30 else 31)"

definition days_before_month :: "nat \<Rightarrow> nat \<Rightarrow> nat" where
  "days_before_month y m = sum_list (map (days_in_month y) [1..<m])"

definition toordinal :: "datetime \<Rightarrow> nat" where
  "toordinal d = days_before_year (year d) + days_before_month (year d) (month d) + day d"

definition micros :: "datetime \<Rightarrow> int" where
  "micros d =
     ((((int (toordinal d) * 24 + int (hour d)) * 60 + int (minute d)) * 60 + int (second d))
        * 1000000) + int (microsecond d)"

definition timedelta_days :: "nat \<Rightarrow> int" where
  "timedelta_days n = int n * 86400 * 1000000"

datatype error =
    ParserError
  | OverflowError
  | KeyError string
  | NameError string
  | TypeError
  | IndexError
  | JSONDecodeError
  | WikiError string
  | OutsideModel

text \<open>
  What the bot reads from outside: the clock (\<^verbatim>\<open>datetime.now()\<close>, the local date and time of
  day), \<^verbatim>\<open>dateutil.parser.parse\<close> (\<open>Inl\<close> the exception it raises), the category listing
  and the revision query of the wiki's API, and the names of the site's namespaces.
  \<open>OutsideModel\<close> stands for a run the embedding does not follow (a regular expression or
  a JSON document beyond the fragment embedded here).
\<close>

record cat_response =
  resp_query :: "string list option option"
    \<comment> \<open>\<open>None\<close>: no key \<^verbatim>\<open>query\<close>; \<open>Some None\<close>: no key \<^verbatim>\<open>categorymembers\<close> under it;
        else the titles of the members listed\<close>
  resp_continue :: "string option"
    \<comment> \<open>the cursor \<^verbatim>\<open>cmcontinue\<close> of the next batch, when the server gives one\<close>

record rev_page =
  missing :: bool
  revisions :: "(string \<times> string) list option"
    \<comment> \<open>user and timestamp of each revision listed, when the key \<^verbatim>\<open>revisions\<close> is there\<close>

record env =
  now :: datetime
  parser_parse :: "string \<Rightarrow> error + datetime"
  categorymembers :: "string \<Rightarrow> nat \<Rightarrow> cat_response"
  query_revisions :: "string \<Rightarrow> rev_page list option"
    \<comment> \<open>\<^verbatim>\<open>data['query']['pages']\<close>, \<open>None\<close> when either key is missing\<close>
  namespaces :: "string list"

definition py_strip :: "string \<Rightarrow> string \<Rightarrow> string" where
  \<comment> \<open>\<^verbatim>\<open>s.strip(chars)\<close>: drops from both ends the characters that are in \<open>chars\<close>\<close>
  "py_strip chars s =
     rev (dropWhile (\<lambda>c. c \<in> set chars) (rev (dropWhile (\<lambda>c. c \<in> set chars) s)))"

definition parse_date :: "env \<Rightarrow> string \<Rightarrow> error + datetime" where
  "parse_date e date_string =
     (let date = py_strip ''date='' date_string;
          prased_date = parser_parse e date
      in prased_date)"

definition is_old :: "env \<Rightarrow> datetime \<Rightarrow> error + bool" where
  \<comment> \<open>\<^verbatim>\<open>date < (datetime.now() - timedelta(days=30))\<close>\<close>
  "is_old e date =
     (let limit = micros (now e) - timedelta_days 30
      in if limit < 86400000000 then Inl OverflowError
         else (case (utcoffset date, utcoffset (now e)) of
                 (None, None) \<Rightarrow> Inr (micros date < limit)
               | (Some a, Some b) \<Rightarrow> Inr (micros date - a * 1000000 < limit - b * 1000000)
               | (None, Some b) \<Rightarrow> Inl TypeError
               | (Some a, None) \<Rightarrow> Inl TypeError))"

fun old_page_loop :: "env \<Rightarrow> string list \<Rightarrow> error + bool" where
  "old_page_loop e [] = Inr False"
| "old_page_loop e (d # dates) =
     (case parse_date e d of
        Inl err \<Rightarrow> Inl err
      | Inr date \<Rightarrow>
          (case is_old e date of
             Inl err \<Rightarrow> Inl err
           | Inr True \<Rightarrow> Inr True
           | Inr False \<Rightarrow> old_page_loop e dates))"

definition old_page :: "env \<Rightarrow> string \<Rightarrow> error + bool" where
  \<comment> \<open>the argument is \<^verbatim>\<open>page.text\<close>; \<open>Inr True\<close> is Eligible, \<open>Inr False\<close> NotEligible\<close>
  "old_page e txt =
     (let dates = grab_template_data ''Archive recommendation'' txt
      in if dates = [] then Inr False else old_page_loop e dates)"

definition old_fragment :: "env \<Rightarrow> string \<Rightarrow> error + bool" where
  \<comment> \<open>one pass of the loop of \<open>old_page\<close>: the fragment's date is read and compared\<close>
  "old_fragment e d =
     (case parse_date e d of
        Inl err \<Rightarrow> Inl err
      | Inr date \<Rightarrow> is_old e date)"

definition decided_by :: "env \<Rightarrow> string list \<Rightarrow> error + bool \<Rightarrow> bool" where
  \<comment> \<open>the first fragment that does not read as a date that is not old gives \<open>r\<close>\<close>
  "decided_by e ds r =
     (\<exists>before d after. ds = before @ d # after \<and> old_fragment e d = r \<and>
        (\<forall>x\<in>set before. old_fragment e x = Inr False))"

section \<open>The wiki and the effects of a run\<close>

text \<open>
  The wiki is a map from titles to page texts. A run leaves a trace: what it printed, the
  requests it sent to the API, the pages it saved and moved. A function that raises returns
  \<open>Inl\<close> of the exception together with the world as it was when the exception was raised.
\<close>

datatype message =
    RevPageAdded
  | NoRevisionOnPage
  | NoRevisionPage
  | NoValidPage
  | NoRevisionInfo string
  | MovingNamespace
  | CannotMove
  | UpdatingTemplate
  | ChangingCategory
  | NotNeeded string
  | InvalidJson
  | NoMemberFound
  | WorkingOn string
  | LastPageFound
  | NoLastPage
  | NoPagesLeft

datatype event =
    Printed message
  | Requested string nat
  | RevisionsQueried string
  | Saved string string
  | Moved string string string

record world =
  pages :: "string \<rightharpoonup> string"
  trace :: "event list"

definition emit :: "event \<Rightarrow> world \<Rightarrow> world" where
  "emit ev w = w\<lparr>trace := trace w @ [ev]\<rparr>"

definition say :: "message \<Rightarrow> world \<Rightarrow> world" where
  \<comment> \<open>\<^verbatim>\<open>print\<close>\<close>
  "say m w = emit (Printed m) w"

definition REV_PAGE :: string where
  "REV_PAGE = ''Powerpedia:ARCHIVE_BOT''"

definition PAGES_LIMIT :: nat where
  "PAGES_LIMIT = 20"

text \<open>
  A \<^verbatim>\<open>pywikibot.Page\<close>: its title and the text it holds in memory, which is the wiki's text
  of the page when the object is first read (empty for a page that does not exist) until
  the bot assigns another. \<^verbatim>\<open>page.save()\<close> writes the text held to the wiki.
\<close>

record page =
  p_title :: string
  p_text :: string

definition Page :: "world \<Rightarrow> string \<Rightarrow> page" where
  "Page w t = \<lparr>p_title = t, p_text = (case pages w t of None \<Rightarrow> [] | Some s \<Rightarrow> s)\<rparr>"

definition page_save :: "page \<Rightarrow> world \<Rightarrow> world" where
  "page_save p w =
     emit (Saved (p_title p) (p_text p))
       (w\<lparr>pages := (pages w)(p_title p \<mapsto> p_text p)\<rparr>)"

definition apostrophe :: char where
  "apostrophe = CHR 0x27"

definition dquote :: char where
  "dquote = CHR 0x22"

definition backslash :: char where
  "backslash = CHR 0x5C"

definition py_replace :: "string \<Rightarrow> string \<Rightarrow> string \<Rightarrow> string" where
  \<comment> \<open>\<^verbatim>\<open>s.replace(old, new)\<close> for a non-empty \<open>old\<close>: every occurrence, from the left\<close>
  "py_replace old new s = re_sub (m_lit old m_end) new s"

section \<open>The checkpoint page\<close>

text \<open>
  \<^verbatim>\<open>str\<close> of the dictionary that \<open>get_revisions\<close> returns, as \<^verbatim>\<open>page.text = rev\<close> stores it:
  the keys and values in insertion order, each as Python's \<^verbatim>\<open>repr\<close> writes a string.
\<close>

definition printable :: "char \<Rightarrow> bool" where
  \<comment> \<open>\<^verbatim>\<open>str.isprintable\<close> on the code points below 256\<close>
  "printable c =
     (let n = (of_char c :: nat) in (32 \<le> n \<and> n < 127) \<or> (161 \<le> n \<and> n \<noteq> 173))"

definition hex2 :: "nat \<Rightarrow> string" where
  "hex2 n = [''0123456789abcdef'' ! (n div 16), ''0123456789abcdef'' ! (n mod 16)]"

definition repr_char :: "char \<Rightarrow> char \<Rightarrow> string" where
  "repr_char q c =
     (if c = q \<or> c = backslash then [backslash, c]
      else if c = CHR 0x09 then [backslash, CHR ''t'']
      else if c = CHR 0x0A then [backslash, CHR ''n'']
      else if c = CHR 0x0D then [backslash, CHR ''r'']
      else if printable c then [c]
      else backslash # CHR ''x'' # hex2 (of_char c))"

definition str_repr :: "string \<Rightarrow> string" where
  "str_repr s =
     (let q = (if apostrophe \<in> set s \<and> dquote \<notin> set s then dquote else apostrophe)
      in q # concat (map (repr_char q) s) @ [q])"

fun comma_join :: "string list \<Rightarrow> string" where
  "comma_join [] = []"
| "comma_join [x] = x"
| "comma_join (x # xs) = x @ '', '' @ comma_join xs"

definition dict_repr :: "(string \<times> string) list \<Rightarrow> string" where
  "dict_repr d = ''{'' @ comma_join (map (\<lambda>(k, v). str_repr k @ '': '' @ str_repr v) d) @ ''}''"

fun py_str :: "(string \<times> string) list option \<Rightarrow> string" where
  \<comment> \<open>\<open>get_revisions\<close> returns the empty string (\<open>None\<close>) or a dictionary\<close>
  "py_str None = []"
| "py_str (Some d) = dict_repr d"

text \<open>
  \<^verbatim>\<open>json.loads\<close>, for the documents that are a string or an object whose values are strings.
  A document that holds a value of another kind (a number, a list, a nested object, a
  literal) or a \<^verbatim>\<open>\u\<close> escape is beyond this embedding: \<open>OutsideModel\<close>.
\<close>

datatype json =
    JString string
  | JObject "(string \<times> string) list"

definition json_space :: "char \<Rightarrow> bool" where
  "json_space c = (c \<in> set [CHR 0x20, CHR 0x09, CHR 0x0A, CHR 0x0D])"

definition skip_ws :: "string \<Rightarrow> string" where
  "skip_ws s = dropWhile json_space s"

definition unescape :: "char \<Rightarrow> char option" where
  "unescape c =
     (if c = dquote then Some dquote
      else if c = backslash then Some backslash
      else if c = CHR ''/'' then Some (CHR ''/'')
      else if c = CHR ''b'' then Some (CHR 0x08)
      else if c = CHR ''f'' then Some (CHR 0x0C)
      else if c = CHR ''n'' then Some (CHR 0x0A)
      else if c = CHR ''r'' then Some (CHR 0x0D)
      else if c = CHR ''t'' then Some (CHR 0x09)
      else None)"

fun scan_string :: "string \<Rightarrow> string \<Rightarrow> error + (string \<times> string)" where
  \<comment> \<open>the input stands behind the opening quote; returns the string and what follows it\<close>
  "scan_string acc [] = Inl JSONDecodeError"
| "scan_string acc (c # cs) =
     (if c = dquote then Inr (acc, cs)
      else if c = backslash then
        (case cs of
           [] \<Rightarrow> Inl JSONDecodeError
         | x # cs' \<Rightarrow>
             if x = CHR ''u'' then Inl OutsideModel
             else (case unescape x of
                     None \<Rightarrow> Inl JSONDecodeError
                   | Some y \<Rightarrow> scan_string (acc @ [y]) cs'))
      else if (of_char c :: nat) < 32 then Inl JSONDecodeError
      else scan_string (acc @ [c]) cs)"

definition other_value_start :: "char \<Rightarrow> bool" where
  \<comment> \<open>the first character of a value that is neither a string nor an object\<close>
  "other_value_start c = (c \<in> set ''[-0123456789tfnNI'')"

fun dict_set :: "(string \<times> string) list \<Rightarrow> string \<Rightarrow> string \<Rightarrow> (string \<times> string) list" where
  "dict_set [] k v = [(k, v)]"
| "dict_set ((k', v') # d) k v = (if k' = k then (k, v) # d else (k', v') # dict_set d k v)"

lemma scan_string_shorter:
  "scan_string acc s = Inr (v, r) \<Longrightarrow> length r < length s"
proof (induction acc s rule: scan_string.induct)
  case (1 acc)
  then show ?case by simp
next
  case (2 acc c cs)
  show ?case
  proof (cases "c = dquote")
    case True
    with "2.prems" show ?thesis by simp
  next
    case nd: False
    show ?thesis
    proof (cases "c = backslash")
      case True
      with nd "2.prems" obtain x cs' y where
        x: "cs = x # cs'" "x \<noteq> CHR ''u''" "unescape x = Some y"
          "scan_string (acc @ [y]) cs' = Inr (v, r)"
        by (auto split: list.splits if_splits option.splits)
      from "2.IH"(1)[OF nd True x(1) x(2) x(3) x(4)] x(1) show ?thesis by simp
    next
      case nb: False
      with nd "2.prems" have c: "\<not> (of_char c :: nat) < 32"
        and s: "scan_string (acc @ [c]) cs = Inr (v, r)"
        by (auto split: if_splits)
      from "2.IH"(2)[OF nd nb c s] show ?thesis by simp
    qed
  qed
qed

lemma skip_ws_shorter: "skip_ws s = c # r \<Longrightarrow> length r < length s"
proof -
  assume a: "skip_ws s = c # r"
  have "length (skip_ws s) \<le> length s" by (simp add: skip_ws_def length_dropWhile_le)
  with a show ?thesis by simp
qed

function parse_members :: "(string \<times> string) list \<Rightarrow> string \<Rightarrow> error + ((string \<times> string) list \<times> string)" where
  \<comment> \<open>the input stands behind the opening quote of a key\<close>
  "parse_members acc s =
     (case scan_string [] s of
        Inl err \<Rightarrow> Inl err
      | Inr (key, r1) \<Rightarrow>
          (case skip_ws r1 of
             [] \<Rightarrow> Inl JSONDecodeError
           | c1 # r2 \<Rightarrow>
               if c1 \<noteq> CHR '':'' then Inl JSONDecodeError
               else (case skip_ws r2 of
                       [] \<Rightarrow> Inl JSONDecodeError
                     | c2 # r3 \<Rightarrow>
                         if c2 = dquote then
                           (case scan_string [] r3 of
                              Inl err \<Rightarrow> Inl err
                            | Inr (v, r4) \<Rightarrow>
                                (case skip_ws r4 of
                                   [] \<Rightarrow> Inl JSONDecodeError
                                 | c3 # r5 \<Rightarrow>
                                     if c3 = CHR ''}'' then Inr (dict_set acc key v, r5)
                                     else if c3 = CHR '','' then
                                       (case skip_ws r5 of
                                          [] \<Rightarrow> Inl JSONDecodeError
                                        | c4 # r6 \<Rightarrow>
                                            if c4 = dquote
                                            then parse_members (dict_set acc key v) r6
                                            else Inl JSONDecodeError)
                                     else Inl JSONDecodeError))
                         else if c2 = CHR ''{'' \<or> other_value_start c2 then Inl OutsideModel
                         else Inl JSONDecodeError)))"
  by pat_completeness auto
termination
proof (relation "measure (\<lambda>(acc, s). length s)")
  show "wf (measure (\<lambda>(acc, s). length s))" by simp
next
  fix acc s x2 key r1 c1 r2 c2 r3 y2 v r4 c3 r5 c4 r6
  assume a: "scan_string [] s = Inr x2" "(key, r1) = x2" "skip_ws r1 = c1 # r2"
    "skip_ws r2 = c2 # r3" "scan_string [] r3 = Inr y2" "(v, r4) = y2"
    "skip_ws r4 = c3 # r5" "skip_ws r5 = c4 # r6"
  have 1: "length r1 < length s" using a(1,2) scan_string_shorter[of "[]" s key r1] by simp
  have 2: "length r2 < length r1" using a(3) by (rule skip_ws_shorter)
  have 3: "length r3 < length r2" using a(4) by (rule skip_ws_shorter)
  have 4: "length r4 < length r3" using a(5,6) scan_string_shorter[of "[]" r3 v r4] by simp
  have 5: "length r5 < length r4" using a(7) by (rule skip_ws_shorter)
  have 6: "length r6 < length r5" using a(8) by (rule skip_ws_shorter)
  from 1 2 3 4 5 6
  show "((dict_set acc key v, r6), (acc, s)) \<in> measure (\<lambda>(acc, s). length s)" by simp
qed

definition parse_object :: "string \<Rightarrow> error + (json \<times> string)" where
  \<comment> \<open>the input stands behind the opening brace\<close>
  "parse_object s =
     (case skip_ws s of
        [] \<Rightarrow> Inl JSONDecodeError
      | c # r \<Rightarrow>
          if c = CHR ''}'' then Inr (JObject [], r)
          else if c = dquote then
            (case parse_members [] r of
               Inl err \<Rightarrow> Inl err
             | Inr (d, r') \<Rightarrow> Inr (JObject d, r'))
          else Inl JSONDecodeError)"

definition json_loads :: "string \<Rightarrow> error + json" where
  "json_loads s =
     (case skip_ws s of
        [] \<Rightarrow> Inl JSONDecodeError
      | c # r \<Rightarrow>
          (let parsed =
             (if c = dquote then
                (case scan_string [] r of
                   Inl err \<Rightarrow> Inl err
                 | Inr (v, r') \<Rightarrow> Inr (JString v, r'))
              else if c = CHR ''{'' then parse_object r
              else if other_value_start c then Inl OutsideModel
              else Inl JSONDecodeError)
           in case parsed of
                Inl err \<Rightarrow> Inl err
              | Inr (j, r') \<Rightarrow> if skip_ws r' = [] then Inr j else Inl JSONDecodeError))"

definition subscript :: "json \<Rightarrow> string \<Rightarrow> error + string" where
  \<comment> \<open>\<^verbatim>\<open>page_contents[key]\<close>\<close>
  "subscript j k =
     (case j of
        JString s \<Rightarrow> Inl TypeError
      | JObject d \<Rightarrow> (case map_of d k of None \<Rightarrow> Inl (KeyError k) | Some v \<Rightarrow> Inr v))"

definition check_last_page :: "world \<Rightarrow> (error + string) \<times> world" where
  "check_last_page w =
     (case pages w REV_PAGE of
        None \<Rightarrow>
          (Inr [], page_save \<lparr>p_title = REV_PAGE, p_text = []\<rparr> (say RevPageAdded w))
      | Some stored \<Rightarrow>
          if stored = [] then (Inr [], say NoRevisionOnPage w)
          else (let page_text = py_replace [apostrophe] [dquote] stored
                in case json_loads page_text of
                     Inl err \<Rightarrow> (Inl err, w)
                   | Inr page_contents \<Rightarrow>
                       (case subscript page_contents ''title'' of
                          Inl err \<Rightarrow> (Inl err, w)
                        | Inr t \<Rightarrow>
                            if t \<noteq> [] then (Inr t, w)
                            else (Inr [], say NoRevisionPage w))))"

definition get_revisions ::
  "env \<Rightarrow> string \<Rightarrow> world \<Rightarrow> (error + (string \<times> string) list option) \<times> world" where
  "get_revisions e page_title w =
     (let w1 = emit (RevisionsQueried page_title) w
      in case query_revisions e page_title of
           None \<Rightarrow> (Inr None, say NoValidPage w1)
         | Some [] \<Rightarrow> (Inl IndexError, w1)
         | Some (p # ps) \<Rightarrow>
             if missing p \<or> revisions p = None
             then (Inr None, say (NoRevisionInfo page_title) w1)
             else (case the (revisions p) of
                     [] \<Rightarrow> (Inl IndexError, w1)
                   | (user, timestamp) # revs \<Rightarrow>
                       (Inr (Some [(''user'', user), (''time'', timestamp),
                                   (''title'', page_title)]), w1)))"

definition update_last_page :: "env \<Rightarrow> string \<Rightarrow> world \<Rightarrow> (error + unit) \<times> world" where
  "update_last_page e current_page w =
     (case get_revisions e current_page w of
        (Inl err, w1) \<Rightarrow> (Inl err, w1)
      | (Inr revision, w1) \<Rightarrow>
          (Inr (), page_save \<lparr>p_title = REV_PAGE, p_text = py_str revision\<rparr> w1))"

section \<open>Archiving one page\<close>

definition month_name :: "nat \<Rightarrow> string" where
  "month_name m =
     [''January'', ''February'', ''March'', ''April'', ''May'', ''June'', ''July'',
      ''August'', ''September'', ''October'', ''November'', ''December''] ! (m - 1)"

definition digit :: "nat \<Rightarrow> char" where
  "digit n = ''0123456789'' ! n"

fun decimal :: "nat \<Rightarrow> string" where
  "decimal n = (if n < 10 then [digit n] else decimal (n div 10) @ [digit (n mod 10)])"

definition archived_template :: "env \<Rightarrow> string" where
  \<comment> \<open>\<^verbatim>\<open>r'{{Archived|date=' + "{0:%B} {0:%d}, {0:%Y}".format(datetime.now()) + "}}"\<close>\<close>
  "archived_template e =
     ''{{Archived|date='' @ month_name (month (now e)) @ '' '' @
       [digit (day (now e) div 10), digit (day (now e) mod 10)] @ '', '' @
       decimal (year (now e)) @ ''}}''"

text \<open>
  \<open>update_template\<close> uses each template found as a pattern, with its pipes escaped and
  nothing else. The embedding follows \<^verbatim>\<open>re.sub\<close> where such a pattern is literal: it holds
  no other metacharacter, and no opening brace that a digit or a comma follows (which
  could start a repetition).
\<close>

fun no_repetition :: "string \<Rightarrow> bool" where
  "no_repetition [] = True"
| "no_repetition [c] = True"
| "no_repetition (c # d # s) =
     ((c = CHR ''{'' \<longrightarrow> d \<notin> set '',0123456789'') \<and> no_repetition (d # s))"

definition literal_template :: "string \<Rightarrow> bool" where
  "literal_template t =
     (list_all (\<lambda>c. c \<notin> set ''.^$*+?[]()'' \<and> c \<noteq> backslash) t \<and> no_repetition t)"

fun sub_templates :: "string \<Rightarrow> string list \<Rightarrow> string \<Rightarrow> error + string" where
  \<comment> \<open>the loop of \<open>update_template\<close>\<close>
  "sub_templates repl [] new_text = Inr new_text"
| "sub_templates repl (template # templates) new_text =
     (if literal_template template
      then sub_templates repl templates (re_sub (m_lit template m_end) repl new_text)
      else Inl OutsideModel)"

definition update_template :: "env \<Rightarrow> page \<Rightarrow> world \<Rightarrow> (error + page) \<times> world" where
  "update_template e p w =
     (let w1 = say UpdatingTemplate w;
          templates = parse_template ''Archive recommendation'' (p_text p)
      in case sub_templates (archived_template e) templates (p_text p) of
           Inl err \<Rightarrow> (Inl err, w1)
         | Inr new_text \<Rightarrow> (Inr (p\<lparr>p_text := new_text\<rparr>), w1))"

definition update_category :: "page \<Rightarrow> string \<Rightarrow> string \<Rightarrow> world \<Rightarrow> page \<times> world" where
  "update_category p old_cat new_cat w =
     (let w1 = say ChangingCategory w;
          p1 = p\<lparr>p_text := py_replace old_cat new_cat (p_text p)\<rparr>
      in (p1, page_save p1 w1))"

text \<open>
  The names bound in the module: its imports, its two constants and its functions. An
  \<^verbatim>\<open>except\<close> clause evaluates the name it holds when an exception reaches it; a name that
  is not bound raises \<^verbatim>\<open>NameError\<close> there.
\<close>

definition module_globals :: "string list" where
  "module_globals =
     [''json'', ''re'', ''datetime'', ''timedelta'', ''requests'', ''urllib3'', ''pywikibot'',
      ''parser'', ''REV_PAGE'', ''PAGES_LIMIT'', ''get_api_url'', ''check_last_page'',
      ''update_last_page'', ''get_params'', ''get_revisions'', ''grab_template_info'',
      ''grab_template_data'', ''parse_template'', ''parse_date'', ''old_page'',
      ''move_namespace'', ''update_template'', ''update_category'', ''update_page'',
      ''modify_pages'', ''main'']"

definition except_clause :: "string \<Rightarrow> string \<Rightarrow> error + bool" where
  \<comment> \<open>the name in the clause and the class raised; \<open>Inr True\<close> when the clause handles it\<close>
  "except_clause name raised =
     (if name \<in> set module_globals then Inr (name = raised) else Inl (NameError name))"

definition split_title :: "env \<Rightarrow> string \<Rightarrow> string \<times> string" where
  \<comment> \<open>the namespace of a title and the title without it\<close>
  "split_title e t =
     (let ns = takeWhile (\<lambda>c. c \<noteq> CHR '':'') t
      in if ns \<noteq> t \<and> ns \<in> set (namespaces e) then (ns, drop (Suc (length ns)) t)
         else ([], t))"

definition page_move :: "string \<Rightarrow> string \<Rightarrow> string \<Rightarrow> world \<Rightarrow> (string + unit) \<times> world" where
  \<comment> \<open>\<^verbatim>\<open>page.move\<close>: \<open>Inl\<close> the class of the exception it raises; a move leaves a redirect\<close>
  "page_move t new_title reason w =
     (case pages w t of
        None \<Rightarrow> (Inl ''NoPageError'', w)
      | Some s \<Rightarrow>
          if pages w new_title \<noteq> None then (Inl ''ArticleExistsConflictError'', w)
          else (Inr (),
                emit (Moved t new_title reason)
                  (w\<lparr>pages := (pages w)(t \<mapsto> ''#REDIRECT [['' @ new_title @ '']]'',
                                           new_title \<mapsto> s)\<rparr>)))"

definition move_namespace :: "env \<Rightarrow> page \<Rightarrow> string \<Rightarrow> world \<Rightarrow> (error + unit) \<times> world" where
  "move_namespace e p namespace w =
     (let w1 = say MovingNamespace w;
          pagetitle = snd (split_title e (p_title p));
          old_namesp = fst (split_title e (p_title p));
          new_page_title = namespace @ '':'' @ pagetitle
      in case page_move (p_title p) new_page_title
                (''Move namespace from '' @ old_namesp @ '' to '' @ namespace) w1 of
           (Inr u, w2) \<Rightarrow> (Inr (), w2)
         | (Inl raised, w2) \<Rightarrow>
             (case except_clause ''ArticleExistsConflictError'' raised of
                Inl err \<Rightarrow> (Inl err, w2)
              | Inr True \<Rightarrow> (Inr (), say CannotMove w2)
              | Inr False \<Rightarrow> (Inl (WikiError raised), w2)))"

definition update_page :: "env \<Rightarrow> string \<Rightarrow> world \<Rightarrow> (error + unit) \<times> world" where
  \<comment> \<open>the argument is \<^verbatim>\<open>page_dict['title']\<close>\<close>
  "update_page e t w =
     (let p = Page w t
      in case old_page e (p_text p) of
           Inl err \<Rightarrow> (Inl err, w)
         | Inr True \<Rightarrow>
             (case update_template e p w of
                (Inl err, w1) \<Rightarrow> (Inl err, w1)
              | (Inr p1, w1) \<Rightarrow>
                  (case update_category p1 ''Articles flagged to be archived''
                          ''Articles Archived'' w1 of
                     (p2, w2) \<Rightarrow> move_namespace e p2 ''Archive'' w2))
         | Inr False \<Rightarrow> (Inr (), say (NotNeeded t) w))"

section \<open>The run\<close>

fun for_pages :: "env \<Rightarrow> string list \<Rightarrow> world \<Rightarrow> (error + unit) \<times> world" where
  \<comment> \<open>the loop of \<open>modify_pages\<close> over the members listed\<close>
  "for_pages e [] w = (Inr (), w)"
| "for_pages e (p # ps) w =
     (case update_page e p (say (WorkingOn p) w) of
        (Inl err, w1) \<Rightarrow> (Inl err, w1)
      | (Inr u, w1) \<Rightarrow> for_pages e ps w1)"

definition modify_pages :: "env \<Rightarrow> string \<Rightarrow> world \<Rightarrow> (error + unit) \<times> world" where
  \<comment> \<open>one GET with \<open>get_params last_title\<close>: \<^verbatim>\<open>cmcontinue\<close> is the title, \<^verbatim>\<open>cmlimit\<close> is
      \<open>PAGES_LIMIT\<close>\<close>
  "modify_pages e last_title w =
     (let w1 = emit (Requested last_title PAGES_LIMIT) w;
          pages_json = categorymembers e last_title PAGES_LIMIT
      in case resp_query pages_json of
           None \<Rightarrow> (Inl (KeyError ''query''), say InvalidJson w1)
         | Some None \<Rightarrow> (Inl (KeyError ''categorymembers''), say NoMemberFound w1)
         | Some (Some members) \<Rightarrow> for_pages e members w1)"

definition main :: "env \<Rightarrow> world \<Rightarrow> (error + unit) \<times> world" where
  "main e w =
     (case check_last_page w of
        (Inl err, w1) \<Rightarrow> (Inl err, w1)
      | (Inr last_title, w1) \<Rightarrow>
          (let w2 = say (if last_title \<noteq> [] then LastPageFound else NoLastPage) w1
           in case modify_pages e last_title w2 of
                (Inl err, w3) \<Rightarrow> (Inl err, w3)
              | (Inr u, w3) \<Rightarrow> (Inr (), say NoPagesLeft w3)))"

text \<open>What a trace shows: the requests for category members, the members handed to
  \<open>update_page\<close>, and the queries for revision metadata.\<close>

fun requests :: "event list \<Rightarrow> (string \<times> nat) list" where
  "requests [] = []"
| "requests (Requested c n # evs) = (c, n) # requests evs"
| "requests (ev # evs) = requests evs"

fun worked_on :: "event list \<Rightarrow> string list" where
  "worked_on [] = []"
| "worked_on (Printed (WorkingOn t) # evs) = t # worked_on evs"
| "worked_on (ev # evs) = worked_on evs"

fun revision_queries :: "event list \<Rightarrow> string list" where
  "revision_queries [] = []"
| "revision_queries (RevisionsQueried t # evs) = t # revision_queries evs"
| "revision_queries (ev # evs) = revision_queries evs"

section \<open>An example environment\<close>

text \<open>
  The examples below run the bot on the first of March 2023 at ten o'clock, with a date
  parser that knows the strings they use: \<^verbatim>\<open>dateutil\<close> reads a date without a time as
  midnight of that day, a time with the zone \<^verbatim>\<open>Z\<close> as aware of UTC, and raises on a string
  that holds no date.
\<close>

definition midnight :: "nat \<Rightarrow> nat \<Rightarrow> nat \<Rightarrow> datetime" where
  "midnight y m d =
     \<lparr>year = y, month = m, day = d, hour = 0, minute = 0, second = 0, microsecond = 0,
      utcoffset = None\<rparr>"

definition example_parse :: "string \<Rightarrow> error + datetime" where
  "example_parse s =
     (if s = ''January 1, 2023'' then Inr (midnight 2023 1 1)
      else if s = ''January 30, 2023'' then Inr (midnight 2023 1 30)
      else if s = ''February 20, 2023'' then Inr (midnight 2023 2 20)
      else if s = ''2023-01-01T12:00:00Z''
        then Inr ((midnight 2023 1 1)\<lparr>hour := 12, utcoffset := Some 0\<rparr>)
      else Inl ParserError)"

definition example_env :: env where
  "example_env =
     \<lparr>now = \<lparr>year = 2023, month = 3, day = 1, hour = 10, minute = 0, second = 0,
              microsecond = 0, utcoffset = None\<rparr>,
      parser_parse = example_parse,
      categorymembers = (\<lambda>c n. \<lparr>resp_query = Some (Some []), resp_continue = None\<rparr>),
      query_revisions = (\<lambda>t. None),
      namespaces = [''Talk'', ''Archive'', ''Powerpedia'']\<rparr>"

text \<open>
  A category served in batches: the server lists at most \<^verbatim>\<open>cmlimit\<close> members, from the
  start or from the member the cursor names, and gives the cursor of the next batch while
  members are left.
\<close>

definition paged_category :: "string list \<Rightarrow> string \<Rightarrow> nat \<Rightarrow> cat_response" where
  "paged_category members cmcontinue cmlimit =
     (let rest = (if cmcontinue = [] then members
                  else dropWhile (\<lambda>t. t \<noteq> cmcontinue) members)
      in \<lparr>resp_query = Some (Some (take cmlimit rest)),
          resp_continue = (case drop cmlimit rest of [] \<Rightarrow> None | t # ts \<Rightarrow> Some t)\<rparr>)"

definition serving :: "string list \<Rightarrow> env" where
  "serving members = example_env\<lparr>categorymembers := paged_category members\<rparr>"

definition old_text :: string where
  "old_text =
     ''{{Archive recommendation|date=January 1, 2023}}\<newline>[[Category:Articles flagged to be archived]]''"

definition crowded_wiki :: world where
  \<comment> \<open>the archive already holds a page under the title that \<^verbatim>\<open>Report\<close> would move to\<close>
  "crowded_wiki =
     \<lparr>pages = [''Report'' \<mapsto> old_text, ''Archive:Report'' \<mapsto> ''An older report.'',
                ''Memo'' \<mapsto> old_text],
      trace = []\<rparr>"

definition archived_text :: string where
  "archived_text = ''{{Archived|date=March 01, 2023}}\<newline>[[Category:Articles Archived]]''"

definition draft_wiki :: world where
  \<comment> \<open>the marker of \<^verbatim>\<open>Draft\<close> holds no date\<close>
  "draft_wiki =
     \<lparr>pages = [''Draft'' \<mapsto> ''{{Archive recommendation|date=soon}}'', ''Memo'' \<mapsto> old_text],
      trace = []\<rparr>"

section \<open>Facts about the matchers and the extraction\<close>






















lemma re_findall_None:
  "m (c # cs) = None \<Longrightarrow> re_findall m (c # cs) = re_findall m cs"
  by simp


































































lemma old_page_loop_Cons:
  "old_page_loop e (d # ds) =
     (case old_fragment e d of
        Inl err \<Rightarrow> Inl err
      | Inr True \<Rightarrow> Inr True
      | Inr False \<Rightarrow> old_page_loop e ds)"
  by (simp add: old_fragment_def split: sum.splits)

lemma old_page_loop_eq:
  "old_page e tx = old_page_loop e (grab_template_data ''Archive recommendation'' tx)"
  by (simp add: old_page_def Let_def)

lemma loop_young: "old_fragment e d = Inr False \<Longrightarrow> old_page_loop e (d # ds) = old_page_loop e ds"
  by (subst old_page_loop_Cons) simp

lemma loop_decided: "old_fragment e d \<noteq> Inr False \<Longrightarrow> old_page_loop e (d # ds) = old_fragment e d"
proof -
  assume a: "old_fragment e d \<noteq> Inr False"
  show ?thesis
  proof (cases "old_fragment e d")
    case (Inl err)
    then show ?thesis by (subst old_page_loop_Cons) simp
  next
    case (Inr b)
    with a have "b" by (cases b) auto
    with Inr show ?thesis by (subst old_page_loop_Cons) simp
  qed
qed


lemma decided_by_young:
  assumes "old_fragment e d = Inr False" "r \<noteq> Inr False"
  shows "decided_by e (d # ds) r \<longleftrightarrow> decided_by e ds r"
proof
  assume "decided_by e (d # ds) r"
  then obtain before d' after where
    h: "d # ds = before @ d' # after" "old_fragment e d' = r"
      "\<forall>x\<in>set before. old_fragment e x = Inr False" unfolding decided_by_def by blast
  show "decided_by e ds r"
  proof (cases before)
    case Nil
    with h assms show ?thesis by simp
  next
    case (Cons b bs)
    with h have "ds = bs @ d' # after" "\<forall>x\<in>set bs. old_fragment e x = Inr False" by simp_all
    with h(2) show ?thesis unfolding decided_by_def by blast
  qed
next
  assume "decided_by e ds r"
  then obtain before d' after where
    h: "ds = before @ d' # after" "old_fragment e d' = r"
      "\<forall>x\<in>set before. old_fragment e x = Inr False" unfolding decided_by_def by blast
  then have "d # ds = (d # before) @ d' # after \<and> old_fragment e d' = r \<and>
      (\<forall>x\<in>set (d # before). old_fragment e x = Inr False)" using assms(1) by simp
  then show "decided_by e (d # ds) r" unfolding decided_by_def by blast
qed

lemma decided_by_first:
  assumes "old_fragment e d \<noteq> Inr False"
  shows "decided_by e (d # ds) r \<longleftrightarrow> old_fragment e d = r"
proof
  assume "decided_by e (d # ds) r"
  then obtain before d' after where
    h: "d # ds = before @ d' # after" "old_fragment e d' = r"
      "\<forall>x\<in>set before. old_fragment e x = Inr False" unfolding decided_by_def by blast
  show "old_fragment e d = r"
  proof (cases before)
    case Nil
    with h show ?thesis by simp
  next
    case (Cons b bs)
    with h assms show ?thesis by simp
  qed
next
  assume "old_fragment e d = r"
  then have "d # ds = [] @ d # ds \<and> old_fragment e d = r \<and>
      (\<forall>x\<in>set []. old_fragment e x = Inr False)" by simp
  then show "decided_by e (d # ds) r" unfolding decided_by_def by blast
qed

lemma loop_decided_by:
  "r \<noteq> Inr False \<Longrightarrow> old_page_loop e ds = r \<longleftrightarrow> decided_by e ds r"
proof (induction ds)
  case Nil
  then show ?case by (auto simp: decided_by_def)
next
  case (Cons d ds)
  show ?case
  proof (cases "old_fragment e d = Inr False")
    case True
    show ?thesis
      using Cons.IH[OF Cons.prems]
      by (simp only: loop_young[OF True] decided_by_young[OF True Cons.prems])
  next
    case False
    show ?thesis by (simp only: loop_decided[OF False] decided_by_first[OF False])
  qed
qed

lemma old_fragment_february:
  "old_fragment example_env ''date=February 20, 2023'' = Inr False"
  by (simp add: old_fragment_def parse_date_def py_strip_def example_env_def example_parse_def
      is_old_def micros_def timedelta_days_def toordinal_def days_before_year_def
      days_before_month_def days_in_month_def is_leap_def upt_rec midnight_def)





section \<open>Facts about the run\<close>

lemma json_loads_plain_text: "json_loads ''Main Page'' = Inl JSONDecodeError"
  by (simp add: json_loads_def skip_ws_def json_space_def dquote_def other_value_start_def)

lemma replace_plain_text: "py_replace [apostrophe] [dquote] ''Main Page'' = ''Main Page''"
  by (simp add: py_replace_def m_lit_def m_end_def apostrophe_def dquote_def)

lemma old_text_fragments:
  "grab_template_data ''Archive recommendation'' old_text = [''date=January 1, 2023'']"
  by (simp add: old_text_def grab_template_data_def grab_template_info_def template_re_def
      name_re_def close_re_def m_lit_def m_star_def m_end_def not_newline_def newline_def
      is_space_def)

lemma old_text_templates:
  "parse_template ''Archive recommendation'' old_text
     = [''{{Archive recommendation|date=January 1, 2023}}'']"
  by (simp add: old_text_def parse_template_def template_re_def
      name_re_def m_lit_def m_star_def m_end_def not_newline_def newline_def is_space_def)

lemma january_old:
  "old_page_loop example_env [''date=January 1, 2023''] = Inr True"
  by (simp add: parse_date_def py_strip_def example_env_def example_parse_def
      is_old_def micros_def timedelta_days_def toordinal_def days_before_year_def
      days_before_month_def days_in_month_def is_leap_def upt_rec midnight_def)

lemma old_text_old: "old_page e old_text = old_page_loop e [''date=January 1, 2023'']"
  by (simp add: old_page_def old_text_fragments)

lemma archived_template_example: "archived_template example_env = ''{{Archived|date=March 01, 2023}}''"
  by (simp add: archived_template_def example_env_def month_name_def digit_def)

lemma old_text_rewritten:
  "sub_templates ''{{Archived|date=March 01, 2023}}''
     [''{{Archive recommendation|date=January 1, 2023}}''] old_text
   = Inr ''{{Archived|date=March 01, 2023}}\<newline>[[Category:Articles flagged to be archived]]''"
  by (simp add: old_text_def literal_template_def backslash_def m_lit_def m_end_def)

lemma category_replaced:
  "py_replace ''Articles flagged to be archived'' ''Articles Archived''
     ''{{Archived|date=March 01, 2023}}\<newline>[[Category:Articles flagged to be archived]]''
   = archived_text"
  by (simp add: py_replace_def archived_text_def m_lit_def m_end_def)

lemma serving_simps:
  "now (serving ms) = now example_env"
  "parser_parse (serving ms) = parser_parse example_env"
  "namespaces (serving ms) = namespaces example_env"
  "categorymembers (serving ms) = paged_category ms"
  by (simp_all add: serving_def)

lemma is_old_serving: "is_old (serving ms) d = is_old example_env d"
  unfolding is_old_def serving_simps by (rule refl)

lemma parse_date_serving: "parse_date (serving ms) d = parse_date example_env d"
  by (simp add: parse_date_def serving_simps)

lemma old_page_loop_serving: "old_page_loop (serving ms) ds = old_page_loop example_env ds"
  by (induction ds) (simp_all add: parse_date_serving is_old_serving split: sum.splits bool.splits)

lemma archived_template_serving: "archived_template (serving ms) = archived_template example_env"
  by (simp add: archived_template_def serving_simps)

lemma update_page_old_text:
  assumes "pages w t = Some old_text"
  shows "update_page (serving ms) t w =
     move_namespace (serving ms) \<lparr>p_title = t, p_text = archived_text\<rparr> ''Archive''
       (page_save \<lparr>p_title = t, p_text = archived_text\<rparr>
          (say ChangingCategory (say UpdatingTemplate w)))"
proof -
  have p: "Page w t = \<lparr>p_title = t, p_text = old_text\<rparr>" by (simp add: Page_def assms)
  have o: "old_page (serving ms) old_text = Inr True"
    by (simp only: old_text_old old_page_loop_serving january_old)
  have u: "update_template (serving ms) \<lparr>p_title = t, p_text = old_text\<rparr> w =
      (Inr \<lparr>p_title = t,
             p_text = ''{{Archived|date=March 01, 2023}}\<newline>[[Category:Articles flagged to be archived]]''\<rparr>,
       say UpdatingTemplate w)"
    by (simp add: update_template_def old_text_templates archived_template_serving
        archived_template_example old_text_rewritten del: sub_templates.simps)
  have c: "update_category
       \<lparr>p_title = t,
        p_text = ''{{Archived|date=March 01, 2023}}\<newline>[[Category:Articles flagged to be archived]]''\<rparr>
       ''Articles flagged to be archived'' ''Articles Archived'' (say UpdatingTemplate w) =
      (\<lparr>p_title = t, p_text = archived_text\<rparr>,
       page_save \<lparr>p_title = t, p_text = archived_text\<rparr>
         (say ChangingCategory (say UpdatingTemplate w)))"
    by (simp add: update_category_def category_replaced Let_def)
  show ?thesis by (simp add: update_page_def p o u c)
qed

lemma move_onto_existing:
  assumes "pages w ''Report'' = Some s" "pages w ''Archive:Report'' = Some s'"
  shows "move_namespace (serving ms) \<lparr>p_title = ''Report'', p_text = x\<rparr> ''Archive'' w =
     (Inl (NameError ''ArticleExistsConflictError''), say MovingNamespace w)"
  using assms
  by (simp add: move_namespace_def split_title_def page_move_def except_clause_def
      module_globals_def say_def emit_def Let_def)

lemma Page_emit: "Page (emit ev w) t = Page w t"
  by (simp add: Page_def emit_def)

lemma Page_say: "Page (say m w) t = Page w t"
  by (simp add: say_def Page_emit)

lemma update_page_raises:
  "old_page e (p_text (Page w t)) = Inl err \<Longrightarrow> update_page e t w = (Inl err, w)"
  by (simp add: update_page_def Let_def)

lemma for_pages_raises:
  assumes "old_page e (p_text (Page w t)) = Inl err"
  shows "for_pages e (t # ts) w = (Inl err, say (WorkingOn t) w)"
proof -
  from assms have "old_page e (p_text (Page (say (WorkingOn t) w) t)) = Inl err"
    by (simp only: Page_say)
  then have "update_page e t (say (WorkingOn t) w) = (Inl err, say (WorkingOn t) w)"
    by (rule update_page_raises)
  then show ?thesis by simp
qed

lemma unparsable_decides:
  assumes "grab_template_data ''Archive recommendation'' tx = before @ d # after"
    "\<forall>x\<in>set before. old_fragment e x = Inr False"
    "parse_date e d = Inl err"
  shows "old_page e tx = Inl err"
proof -
  from assms(3) have "old_fragment e d = Inl err" by (simp add: old_fragment_def)
  with assms(1,2) have "decided_by e (grab_template_data ''Archive recommendation'' tx) (Inl err)"
    unfolding decided_by_def by blast
  then have "old_page_loop e (grab_template_data ''Archive recommendation'' tx) = Inl err"
    by (simp add: loop_decided_by)
  then show ?thesis by (simp only: old_page_loop_eq)
qed

section \<open>The marker extractor\<close>







section \<open>The eligibility check\<close>





section \<open>The checkpoint page and the batch\<close>

text \<open>
  Claim C9, against the code. \<open>check_last_page\<close> hands the text of the checkpoint page to
  \<^verbatim>\<open>json.loads\<close> with no exception handler: on a checkpoint page that exists and holds a
  text that is no JSON document, here \<^verbatim>\<open>Main Page\<close>, it raises \<^verbatim>\<open>JSONDecodeError\<close>, prints
  nothing, and the run ends with that exception before any page is requested.
\<close>

theorem check_last_page_unparsable_raises:
  "check_last_page \<lparr>pages = [REV_PAGE \<mapsto> ''Main Page''], trace = []\<rparr> =
     (Inl JSONDecodeError, \<lparr>pages = [REV_PAGE \<mapsto> ''Main Page''], trace = []\<rparr>) \<and>
   main e \<lparr>pages = [REV_PAGE \<mapsto> ''Main Page''], trace = []\<rparr> =
     (Inl JSONDecodeError, \<lparr>pages = [REV_PAGE \<mapsto> ''Main Page''], trace = []\<rparr>)"
  by (simp add: main_def check_last_page_def replace_plain_text json_loads_plain_text)

text \<open>
  Claim C6, against the code. The \<^verbatim>\<open>except\<close> clause of \<open>move_namespace\<close> names
  \<^verbatim>\<open>ArticleExistsConflictError\<close>, which the module never imports. In the run below the
  archive already holds a page under the title that the first member would move to: the
  page is saved with its new template and category, the move raises, the clause raises
  \<^verbatim>\<open>NameError\<close> in its turn, nothing is printed about the move, and the run ends there: the
  second member is never worked on.
\<close>

theorem move_conflict_aborts_batch:
  "modify_pages (serving [''Report'', ''Memo'']) [] crowded_wiki =
     (Inl (NameError ''ArticleExistsConflictError''),
      \<lparr>pages = (pages crowded_wiki)(''Report'' \<mapsto> archived_text),
       trace = [Requested [] 20, Printed (WorkingOn ''Report''), Printed UpdatingTemplate,
                Printed ChangingCategory, Saved ''Report'' archived_text,
                Printed MovingNamespace]\<rparr>)"
proof -
  define w where "w = say (WorkingOn ''Report'') (emit (Requested [] 20) crowded_wiki)"
  define w' where "w' = page_save \<lparr>p_title = ''Report'', p_text = archived_text\<rparr>
          (say ChangingCategory (say UpdatingTemplate w))"
  have m: "categorymembers (serving [''Report'', ''Memo'']) [] PAGES_LIMIT =
      \<lparr>resp_query = Some (Some [''Report'', ''Memo'']), resp_continue = None\<rparr>"
    by (simp add: serving_simps paged_category_def PAGES_LIMIT_def)
  have p: "pages w ''Report'' = Some old_text"
    by (simp add: w_def say_def emit_def crowded_wiki_def)
  have q: "pages w' ''Report'' = Some archived_text"
      "pages w' ''Archive:Report'' = Some ''An older report.''"
    by (simp_all add: w'_def w_def page_save_def say_def emit_def crowded_wiki_def)
  have u: "update_page (serving [''Report'', ''Memo'']) ''Report'' w =
      (Inl (NameError ''ArticleExistsConflictError''), say MovingNamespace w')"
    by (simp only: update_page_old_text[OF p] w'_def[symmetric] move_onto_existing[OF q])
  have f: "for_pages (serving [''Report'', ''Memo'']) [''Report'', ''Memo'']
        (emit (Requested [] 20) crowded_wiki) =
      (Inl (NameError ''ArticleExistsConflictError''), say MovingNamespace w')"
    by (simp add: w_def[symmetric] u)
  have r: "say MovingNamespace w' =
      \<lparr>pages = (pages crowded_wiki)(''Report'' \<mapsto> archived_text),
       trace = [Requested [] 20, Printed (WorkingOn ''Report''), Printed UpdatingTemplate,
                Printed ChangingCategory, Saved ''Report'' archived_text,
                Printed MovingNamespace]\<rparr>"
    by (simp add: w'_def w_def page_save_def say_def emit_def crowded_wiki_def)
  show ?thesis
    by (simp add: modify_pages_def m Let_def del: for_pages.simps)
      (simp only: PAGES_LIMIT_def f r)
qed

text \<open>
  Claim C4, as amended. Nothing catches the exception of the date parser. When the check
  of a page reaches a fragment whose date cannot be parsed (every fragment before it holds
  a date that is not old), \<open>old_page\<close> raises the parser's exception, \<open>update_page\<close> raises
  it and leaves the wiki as it is, and the loop of \<open>modify_pages\<close> ends there: the members
  listed behind the page are not worked on.
\<close>

theorem unparsable_date_aborts_batch:
  assumes "grab_template_data ''Archive recommendation'' (p_text (Page w t)) = before @ d # after"
    "\<forall>x\<in>set before. old_fragment e x = Inr False"
    "parse_date e d = Inl err"
  shows "old_page e (p_text (Page w t)) = Inl err \<and>
         update_page e t w = (Inl err, w) \<and>
         for_pages e (t # ts) w = (Inl err, say (WorkingOn t) w)"
proof -
  have o: "old_page e (p_text (Page w t)) = Inl err" by (rule unparsable_decides[OF assms])
  from o update_page_raises[OF o] for_pages_raises[OF o] show ?thesis by (intro conjI)
qed

theorem unparsable_date_aborts_batch_witness:
  "old_page example_env
     ''{{Archive recommendation|date=February 20, 2023}}\<newline>{{Archive recommendation|date=soon}}''
     = Inl ParserError \<and>
   for_pages example_env [''Notes'', ''Memo'']
     \<lparr>pages = [''Notes'' \<mapsto> ''{{Archive recommendation|date=February 20, 2023}}\<newline>{{Archive recommendation|date=soon}}'',
               ''Memo'' \<mapsto> old_text],
      trace = []\<rparr>
     = (Inl ParserError,
        \<lparr>pages = [''Notes'' \<mapsto> ''{{Archive recommendation|date=February 20, 2023}}\<newline>{{Archive recommendation|date=soon}}'',
                  ''Memo'' \<mapsto> old_text],
         trace = [Printed (WorkingOn ''Notes'')]\<rparr>)"
proof -
  define tx where "tx = ''{{Archive recommendation|date=February 20, 2023}}\<newline>{{Archive recommendation|date=soon}}''"
  define w where "w = \<lparr>pages = [''Notes'' \<mapsto> tx, ''Memo'' \<mapsto> old_text], trace = []\<rparr>"
  have p: "p_text (Page w ''Notes'') = tx" by (simp add: Page_def w_def)
  have g: "grab_template_data ''Archive recommendation'' tx
      = [''date=February 20, 2023''] @ ''date=soon'' # []"
    unfolding tx_def
    by (simp add: grab_template_data_def grab_template_info_def template_re_def name_re_def
        close_re_def m_lit_def m_star_def m_end_def not_newline_def newline_def is_space_def)
  have b: "\<forall>x\<in>set [''date=February 20, 2023'']. old_fragment example_env x = Inr False"
    by (simp add: old_fragment_february)
  have d: "parse_date example_env ''date=soon'' = Inl ParserError"
    by (simp add: parse_date_def py_strip_def example_env_def example_parse_def)
  have s: "say (WorkingOn ''Notes'') w =
      \<lparr>pages = [''Notes'' \<mapsto> tx, ''Memo'' \<mapsto> old_text], trace = [Printed (WorkingOn ''Notes'')]\<rparr>"
    by (simp add: say_def emit_def w_def)
  from unparsable_date_aborts_batch[of w "''Notes''" "[''date=February 20, 2023'']"
      "''date=soon''" "[]" example_env ParserError "[''Memo'']", unfolded p, OF g b d]
  show ?thesis unfolding s unfolding w_def tx_def by (intro conjI) simp_all
qed

text \<open>
  As the claim states it, a page whose marker holds a date that cannot be parsed would be
  skipped and the batch would go on. The run below lists two members: the marker of the
  first holds no date, and the second is old enough to be archived. The run ends with the
  parser's exception at the first, and the second is never worked on.
\<close>

theorem unparsable_date_fatal_counterexample:
  "modify_pages (serving [''Draft'', ''Memo'']) [] draft_wiki =
     (Inl ParserError,
      \<lparr>pages = pages draft_wiki,
       trace = [Requested [] 20, Printed (WorkingOn ''Draft'')]\<rparr>) \<and>
   pages draft_wiki ''Memo'' = Some old_text \<and>
   old_page (serving [''Draft'', ''Memo'']) old_text = Inr True"
proof -
  define w where "w = emit (Requested [] 20) draft_wiki"
  have m: "categorymembers (serving [''Draft'', ''Memo'']) [] PAGES_LIMIT =
      \<lparr>resp_query = Some (Some [''Draft'', ''Memo'']), resp_continue = None\<rparr>"
    by (simp add: serving_simps paged_category_def PAGES_LIMIT_def)
  have p: "p_text (Page w ''Draft'') = ''{{Archive recommendation|date=soon}}''"
    by (simp add: Page_def w_def emit_def draft_wiki_def)
  have g: "grab_template_data ''Archive recommendation'' ''{{Archive recommendation|date=soon}}''
      = [''date=soon'']"
    by (simp add: grab_template_data_def grab_template_info_def template_re_def name_re_def
        close_re_def m_lit_def m_star_def m_end_def not_newline_def newline_def is_space_def)
  have "old_page_loop example_env [''date=soon''] = Inl ParserError"
    by (simp add: parse_date_def py_strip_def example_env_def example_parse_def)
  then have o: "old_page (serving [''Draft'', ''Memo'']) (p_text (Page w ''Draft'')) = Inl ParserError"
    by (simp only: p old_page_loop_eq g old_page_loop_serving)
  have f: "for_pages (serving [''Draft'', ''Memo'']) [''Draft'', ''Memo''] w
      = (Inl ParserError, say (WorkingOn ''Draft'') w)"
    by (rule for_pages_raises[OF o])
  have r: "say (WorkingOn ''Draft'') w =
      \<lparr>pages = pages draft_wiki, trace = [Requested [] 20, Printed (WorkingOn ''Draft'')]\<rparr>"
    by (simp add: w_def say_def emit_def draft_wiki_def)
  have a: "modify_pages (serving [''Draft'', ''Memo'']) [] draft_wiki =
     (Inl ParserError,
      \<lparr>pages = pages draft_wiki,
       trace = [Requested [] 20, Printed (WorkingOn ''Draft'')]\<rparr>)"
    by (simp add: modify_pages_def m Let_def del: for_pages.simps)
      (simp only: PAGES_LIMIT_def w_def[symmetric] f r)
  have b: "pages draft_wiki ''Memo'' = Some old_text" by (simp add: draft_wiki_def)
  have c: "old_page (serving [''Draft'', ''Memo'']) old_text = Inr True"
    by (simp only: old_text_old old_page_loop_serving january_old)
  from a b c show ?thesis by (intro conjI)
qed

end
